theory Spec2Isabelle
  imports Complex_Main "HOL-Library.Sublist" "HOL-Library.Char_ord" "HOL-Library.List_Lexorder"
    "HOL-Library.Multiset"
begin

section \<open>JavaScript values and the host functions the dashboards call\<close>

text \<open>
  The dashboards work on JSON fetched from the backend. A value is one of the JSON
  shapes plus \<open>undefined\<close>; an object is the list of its own properties (first entry
  wins on lookup). Numbers held by records are integers (levels, ids, counts, event
  ids) below \<open>10^21\<close>, where \<open>String\<close> prints plain decimal digits. Strings are lists of
  ASCII code units. Properties inherited from \<open>Object.prototype\<close> or \<open>Array.prototype\<close>
  and objects that carry their own \<open>toString\<close> are outside this data model.
\<close>

datatype jsval =
    JUndefined
  | JNull
  | JBool bool
  | JNum int
  | JStr string
  | JArr "jsval list"
  | JObj "(string \<times> jsval) list"

type_synonym jsobject = "(string \<times> jsval) list"

text \<open>
  The result of \<open>parseFloat\<close> and \<open>parseInt\<close>: an IEEE double, idealised as an exact
  rational, with the two infinities and \<open>NaN\<close> kept apart.
\<close>

datatype jsnum = NaN | NegInf | Fin rat | PosInf

text \<open>Truthiness, as \<open>||\<close>, \<open>&&\<close> and \<open>!\<close> test it.\<close>

fun truthy :: "jsval \<Rightarrow> bool" where
  "truthy JUndefined = False"
| "truthy JNull = False"
| "truthy (JBool b) = b"
| "truthy (JNum n) = (n \<noteq> 0)"
| "truthy (JStr s) = (s \<noteq> [])"
| "truthy (JArr xs) = True"
| "truthy (JObj fs) = True"

text \<open>\<open>a || b\<close> on values.\<close>

definition js_or :: "jsval \<Rightarrow> jsval \<Rightarrow> jsval" where
  "js_or a b = (if truthy a then a else b)"

text \<open>The relational operators on numbers: every comparison with \<open>NaN\<close> is false.\<close>

fun num_lt :: "jsnum \<Rightarrow> jsnum \<Rightarrow> bool" where
  "num_lt NaN y = False"
| "num_lt x NaN = False"
| "num_lt PosInf y = False"
| "num_lt x NegInf = False"
| "num_lt NegInf y = True"
| "num_lt x PosInf = True"
| "num_lt (Fin a) (Fin b) = (a < b)"

definition num_gt :: "jsnum \<Rightarrow> jsnum \<Rightarrow> bool" where
  "num_gt x y = num_lt y x"

text \<open>Strict equality \<open>===\<close> on numbers.\<close>

definition num_eq :: "jsnum \<Rightarrow> jsnum \<Rightarrow> bool" where
  "num_eq x y = (x \<noteq> NaN \<and> x = y)"

text \<open>\<open>x >= y\<close> on numbers.\<close>

definition num_ge :: "jsnum \<Rightarrow> jsnum \<Rightarrow> bool" where
  "num_ge x y = (num_gt x y \<or> num_eq x y)"

text \<open>\<open>x || 0\<close> on a number: \<open>NaN\<close> and zero are falsy.\<close>

definition num_or_zero :: "jsnum \<Rightarrow> jsnum" where
  "num_or_zero x = (if x = NaN \<or> x = Fin 0 then Fin 0 else x)"

subsection \<open>Strings\<close>

definition lowerChar :: "char \<Rightarrow> char" where
  "lowerChar c =
     (let n = (of_char c :: nat) in if 65 \<le> n \<and> n \<le> 90 then char_of (n + 32) else c)"

definition toLowerCase :: "string \<Rightarrow> string" where
  "toLowerCase s = map lowerChar s"

text \<open>\<open>s.includes(t)\<close>, \<open>s.startsWith(t)\<close>, \<open>s.endsWith(t)\<close>.\<close>

definition includes_str :: "string \<Rightarrow> string \<Rightarrow> bool" where
  "includes_str s t = sublist t s"

definition startsWith :: "string \<Rightarrow> string \<Rightarrow> bool" where
  "startsWith s t = prefix t s"

definition endsWith :: "string \<Rightarrow> string \<Rightarrow> bool" where
  "endsWith s t = suffix t s"

text \<open>\<open>s.split(c)\<close> for a one-character separator: the empty string splits into \<open>[""]\<close>.\<close>

fun split :: "char \<Rightarrow> string \<Rightarrow> string list" where
  "split c [] = [[]]"
| "split c (x # xs) =
     (if x = c then [] # split c xs
      else (case split c xs of [] \<Rightarrow> [[x]] | y # ys \<Rightarrow> (x # y) # ys))"

definition isDigit :: "char \<Rightarrow> bool" where
  "isDigit c = (let n = (of_char c :: nat) in 48 \<le> n \<and> n \<le> 57)"

definition digitVal :: "char \<Rightarrow> nat" where
  "digitVal c = of_char c - 48"

definition natOfDigits :: "string \<Rightarrow> nat" where
  "natOfDigits ds = foldl (\<lambda>a c. 10 * a + digitVal c) 0 ds"

function stringOfNat :: "nat \<Rightarrow> string" where
  "stringOfNat n =
     (if n < 10 then [char_of (48 + n)]
      else stringOfNat (n div 10) @ [char_of (48 + n mod 10)])"
  by pat_completeness auto
termination
  by (relation "measure id") auto

declare stringOfNat.simps [simp del]

definition stringOfInt :: "int \<Rightarrow> string" where
  "stringOfInt i = (if i < 0 then CHR ''-'' # stringOfNat (nat (- i)) else stringOfNat (nat i))"

text \<open>\<open>xs.join(sep)\<close> on strings.\<close>

fun join :: "string \<Rightarrow> string list \<Rightarrow> string" where
  "join sep [] = []"
| "join sep [x] = x"
| "join sep (x # y # ys) = x @ sep @ join sep (y # ys)"

text \<open>
  \<open>String(v)\<close>. An array prints its elements joined by commas, \<open>null\<close> and \<open>undefined\<close>
  elements as the empty string; a plain object prints \<open>[object Object]\<close>.
\<close>

fun js_String :: "jsval \<Rightarrow> string" where
  "js_String JUndefined = ''undefined''"
| "js_String JNull = ''null''"
| "js_String (JBool b) = (if b then ''true'' else ''false'')"
| "js_String (JNum n) = stringOfInt n"
| "js_String (JStr s) = s"
| "js_String (JArr xs) =
     join '','' (map (\<lambda>x. if x = JNull \<or> x = JUndefined then [] else js_String x) xs)"
| "js_String (JObj fs) = ''[object Object]''"

subsection \<open>\<open>parseFloat\<close> and \<open>parseInt\<close>\<close>

definition isWhiteSpace :: "char \<Rightarrow> bool" where
  "isWhiteSpace c = (let n = (of_char c :: nat) in (9 \<le> n \<and> n \<le> 13) \<or> n = 32)"

text \<open>An optional sign: whether it is a minus, and the rest.\<close>

fun takeSign :: "string \<Rightarrow> bool \<times> string" where
  "takeSign [] = (False, [])"
| "takeSign (c # r) =
     (if c = CHR ''-'' then (True, r) else if c = CHR ''+'' then (False, r) else (False, c # r))"

text \<open>
  The exponent part after the mantissa: \<open>e\<close> or \<open>E\<close>, an optional sign and at least one
  digit; anything else is no exponent.
\<close>

definition exponentOf :: "string \<Rightarrow> int" where
  "exponentOf r =
     (case r of
        [] \<Rightarrow> 0
      | c # r' \<Rightarrow>
          if c = CHR ''e'' \<or> c = CHR ''E'' then
            (let (neg, r'') = takeSign r'; ds = takeWhile isDigit r''
             in if ds = [] then 0 else (if neg then - int (natOfDigits ds) else int (natOfDigits ds)))
          else 0)"

definition scale10 :: "rat \<Rightarrow> int \<Rightarrow> rat" where
  "scale10 m e = (if e < 0 then m / 10 ^ nat (- e) else m * 10 ^ nat e)"

text \<open>
  \<open>parseFloat\<close> on a string: leading white space is skipped, then the longest prefix
  that is a decimal literal is read; no such prefix gives \<open>NaN\<close>.
\<close>

definition parseFloat_str :: "string \<Rightarrow> jsnum" where
  "parseFloat_str s =
     (let (neg, u) = takeSign (dropWhile isWhiteSpace s) in
      if prefix ''Infinity'' u then (if neg then NegInf else PosInf)
      else
        let ip = takeWhile isDigit u;
            r1 = dropWhile isDigit u;
            (fp, r2) = (case r1 of
                          [] \<Rightarrow> ([], r1)
                        | c # r \<Rightarrow> if c = CHR ''.'' then (takeWhile isDigit r, dropWhile isDigit r)
                                   else ([], r1))
        in if ip = [] \<and> fp = [] then NaN
           else
             let m = of_nat (natOfDigits ip) + of_nat (natOfDigits fp) / 10 ^ length fp
             in Fin (scale10 (if neg then - m else m) (exponentOf r2)))"

text \<open>\<open>parseFloat(v)\<close>: the argument is converted to a string first; a number comes back
  as itself.\<close>

definition parseFloat :: "jsval \<Rightarrow> jsnum" where
  "parseFloat v = (case v of JNum n \<Rightarrow> Fin (of_int n) | _ \<Rightarrow> parseFloat_str (js_String v))"

text \<open>
  \<open>parseInt\<close> on a string without a radix: white space, a sign, then hexadecimal digits
  after \<open>0x\<close> or decimal digits; no digit gives \<open>NaN\<close>.
\<close>

definition isHexDigit :: "char \<Rightarrow> bool" where
  "isHexDigit c =
     (let n = (of_char c :: nat)
      in (48 \<le> n \<and> n \<le> 57) \<or> (65 \<le> n \<and> n \<le> 70) \<or> (97 \<le> n \<and> n \<le> 102))"

definition hexVal :: "char \<Rightarrow> nat" where
  "hexVal c =
     (let n = (of_char c :: nat)
      in if n \<le> 57 then n - 48 else if n \<le> 70 then n - 55 else n - 87)"

definition natOfHex :: "string \<Rightarrow> nat" where
  "natOfHex ds = foldl (\<lambda>a c. 16 * a + hexVal c) 0 ds"

definition parseInt_str :: "string \<Rightarrow> jsnum" where
  "parseInt_str s =
     (let (neg, u) = takeSign (dropWhile isWhiteSpace s);
          hex = (prefix ''0x'' u \<or> prefix ''0X'' u);
          ds = (if hex then takeWhile isHexDigit (drop 2 u) else takeWhile isDigit u);
          m = (if hex then int (natOfHex ds) else int (natOfDigits ds))
      in if ds = [] then NaN else Fin (of_int (if neg then - m else m)))"

definition parseInt :: "jsval \<Rightarrow> jsnum" where
  "parseInt v = (case v of JNum n \<Rightarrow> Fin (of_int n) | _ \<Rightarrow> parseInt_str (js_String v))"

subsection \<open>Property access\<close>

text \<open>An array index is a canonical decimal numeral: digits with no leading zero.\<close>

definition isArrayIndex :: "string \<Rightarrow> bool" where
  "isArrayIndex k = (k \<noteq> [] \<and> list_all isDigit k \<and> (k = ''0'' \<or> hd k \<noteq> CHR ''0''))"

text \<open>\<open>key in v\<close> for a value whose \<open>typeof\<close> is \<open>object\<close>.\<close>

fun hasProperty :: "jsval \<Rightarrow> string \<Rightarrow> bool" where
  "hasProperty (JObj fs) k = (k \<in> set (map fst fs))"
| "hasProperty (JArr xs) k = (k = ''length'' \<or> (isArrayIndex k \<and> natOfDigits k < length xs))"
| "hasProperty v k = False"

text \<open>
  \<open>v[key]\<close> for a value that is neither \<open>null\<close> nor \<open>undefined\<close>. The dashboards read data
  fields only, which a string, number or boolean does not have.
\<close>

fun getProperty :: "jsval \<Rightarrow> string \<Rightarrow> jsval" where
  "getProperty (JObj fs) k = (case map_of fs k of Some v \<Rightarrow> v | None \<Rightarrow> JUndefined)"
| "getProperty (JArr xs) k =
     (if k = ''length'' then JNum (int (length xs))
      else if isArrayIndex k \<and> natOfDigits k < length xs then xs ! natOfDigits k
      else JUndefined)"
| "getProperty v k = JUndefined"

text \<open>Optional chaining \<open>v?.key\<close>.\<close>

definition optGet :: "jsval \<Rightarrow> string \<Rightarrow> jsval" where
  "optGet v k = (if v = JNull \<or> v = JUndefined then JUndefined else getProperty v k)"

definition typeofObject :: "jsval \<Rightarrow> bool" where
  "typeofObject v = (case v of JNull \<Rightarrow> True | JArr xs \<Rightarrow> True | JObj fs \<Rightarrow> True | _ \<Rightarrow> False)"

subsection \<open>Arrays\<close>

text \<open>\<open>xs.slice(start, end)\<close>: a negative index counts from the end, both are clamped.\<close>

definition js_slice :: "'a list \<Rightarrow> int \<Rightarrow> int \<Rightarrow> 'a list" where
  "js_slice xs start end =
     (let len = int (length xs);
          k = (if start < 0 then max (len + start) 0 else min start len);
          final = (if end < 0 then max (len + end) 0 else min end len)
      in take (nat (final - k)) (drop (nat k) xs))"

text \<open>
  \<open>xs.sort(compare)\<close>. ECMAScript requires the sort to be stable and fixes the result
  when the comparator is consistent; insertion from the right computes it. For a
  comparator that is not consistent the standard leaves the order to the engine, and
  this is one order it allows.
\<close>

fun insertSorted :: "('a \<Rightarrow> 'a \<Rightarrow> int) \<Rightarrow> 'a \<Rightarrow> 'a list \<Rightarrow> 'a list" where
  "insertSorted c x [] = [x]"
| "insertSorted c x (y # ys) = (if c x y \<le> 0 then x # y # ys else y # insertSorted c x ys)"

definition array_sort :: "('a \<Rightarrow> 'a \<Rightarrow> int) \<Rightarrow> 'a list \<Rightarrow> 'a list" where
  "array_sort c xs = foldr (insertSorted c) xs []"

text \<open>\<open>Math.ceil(a / b)\<close> on integers; dividing by zero gives an infinity or \<open>NaN\<close>.\<close>

definition ceilDiv :: "int \<Rightarrow> int \<Rightarrow> jsnum" where
  "ceilDiv a b =
     (if b = 0 then (if a = 0 then NaN else if 0 < a then PosInf else NegInf)
      else Fin (of_int \<lceil>(of_int a :: rat) / of_int b\<rceil>))"

text \<open>
  What stays with the host: parsing a date (\<open>new Date(v).getTime()\<close>, \<open>NaN\<close> for an
  invalid date, here \<open>None\<close>) and the relational operator on operands of different types, which
  converts them first. Functions that reach them take the host as a parameter.
\<close>

record host =
  dateTime :: "jsval \<Rightarrow> int option"
  relLt :: "jsval \<Rightarrow> jsval \<Rightarrow> bool"

text \<open>The time value of \<open>new Date(v)\<close> as a number: milliseconds, or \<open>NaN\<close>.\<close>

definition dateValue :: "host \<Rightarrow> jsval \<Rightarrow> jsnum" where
  "dateValue H v = (case dateTime H v of None \<Rightarrow> NaN | Some t \<Rightarrow> Fin (of_int t))"

text \<open>
  \<open>x < y\<close> on values: two strings compare by code units, two numbers by value, and
  \<open>undefined\<close> converts to \<open>NaN\<close>, which makes the comparison false.
\<close>

definition js_lt :: "host \<Rightarrow> jsval \<Rightarrow> jsval \<Rightarrow> bool" where
  "js_lt H x y =
     (case (x, y) of
        (JStr a, JStr b) \<Rightarrow> a < b
      | (JNum a, JNum b) \<Rightarrow> a < b
      | (JUndefined, _) \<Rightarrow> False
      | (_, JUndefined) \<Rightarrow> False
      | _ \<Rightarrow> relLt H x y)"

definition js_gt :: "host \<Rightarrow> jsval \<Rightarrow> jsval \<Rightarrow> bool" where
  "js_gt H x y = js_lt H y x"

section \<open>SearchAnalytics: advanced filters, pages and sorting\<close>

text \<open>
  One entry of \<open>activeFilters\<close>, as \<open>applyAdvancedFilters\<close> builds it from a filter row:
  all of its properties are strings.
\<close>

record activeFilter =
  filterId :: string
  field :: string
  operator :: string
  filterValue :: string

text \<open>
  The instance state. A hit is an object with the properties \<open>id\<close>, \<open>timestamp\<close> and
  \<open>data\<close>; \<open>itemsPerPage\<close> is set to 25 by the constructor.
\<close>

record searchAnalytics =
  currentPage :: int
  itemsPerPage :: int
  currentData :: "jsobject list"
  filteredData :: "jsobject list"
  sortField :: string
  sortDirection :: string
  activeFilters :: "activeFilter list"

text \<open>
  \<open>getNestedValue(obj, path)\<close>: the path is split at the dots and followed with
  \<open>reduce\<close>; a step that cannot be taken gives the empty string, and the walk goes on
  from there.
\<close>

definition nestedStep :: "jsval \<Rightarrow> string \<Rightarrow> jsval" where
  "nestedStep current key =
     (if truthy current \<and> typeofObject current \<and> hasProperty current key
      then getProperty current key else JStr [])"

definition getNestedValue :: "jsval \<Rightarrow> string \<Rightarrow> jsval" where
  "getNestedValue obj path = foldl nestedStep obj (split CHR ''.'' path)"

text \<open>
  \<open>evaluateFilter(hit, filter)\<close>. The two numeric fields are compared as numbers and
  know three operators; every other field is compared as a lower-cased string. Both
  switches end in \<open>default: return true\<close>.
\<close>

definition evaluateFilter :: "jsobject \<Rightarrow> activeFilter \<Rightarrow> bool" where
  "evaluateFilter hit f =
     (let source = js_or (getProperty (JObj hit) ''data'') (JObj []);
          fieldValue = getNestedValue source (field f)
      in if field f = ''rule.level'' \<or> field f = ''data.win.system.eventID'' then
           (let fieldNum = num_or_zero (parseFloat fieldValue);
                filterNum = num_or_zero (parseFloat (JStr (filterValue f)))
            in if operator f = ''equals'' then num_eq fieldNum filterNum
               else if operator f = ''greater_than'' then num_gt fieldNum filterNum
               else if operator f = ''less_than'' then num_lt fieldNum filterNum
               else True)
         else
           (let fieldStr = toLowerCase (js_String (js_or fieldValue (JStr [])));
                filterStr = toLowerCase (filterValue f)
            in if operator f = ''equals'' then fieldStr = filterStr
               else if operator f = ''contains'' then includes_str fieldStr filterStr
               else if operator f = ''starts_with'' then startsWith fieldStr filterStr
               else if operator f = ''ends_with'' then endsWith fieldStr filterStr
               else if operator f = ''exists'' then
                 fieldStr \<noteq> [] \<and> fieldStr \<noteq> ''undefined'' \<and> fieldStr \<noteq> ''null''
               else if operator f = ''not_exists'' then
                 fieldStr = [] \<or> fieldStr = ''undefined'' \<or> fieldStr = ''null''
               else True))"

text \<open>
  \<open>applyFiltersToData()\<close>: with no active filter the data is copied; otherwise each
  filter in turn keeps the hits it accepts. The page goes back to 1; rendering the table
  and the pagination bar changes no state.
\<close>

definition applyFiltersToData :: "searchAnalytics \<Rightarrow> searchAnalytics" where
  "applyFiltersToData s =
     (let filtered =
            (if length (activeFilters s) = 0 then currentData s
             else foldl (\<lambda>filtered f. filter (\<lambda>hit. evaluateFilter hit f) filtered)
                    (currentData s) (activeFilters s))
      in s\<lparr>filteredData := filtered, currentPage := 1\<rparr>)"

text \<open>The rows \<open>renderTable()\<close> shows: the slice of \<open>filteredData\<close> for the current page.\<close>

definition pageData :: "searchAnalytics \<Rightarrow> jsobject list" where
  "pageData s =
     (let startIndex = (currentPage s - 1) * itemsPerPage s;
          endIndex = startIndex + itemsPerPage s
      in js_slice (filteredData s) startIndex endIndex)"

text \<open>The \<open>totalPages\<close> that \<open>updatePagination()\<close>, \<open>goToPage\<close> and \<open>goToLastPage\<close> compute.\<close>

definition totalPages :: "searchAnalytics \<Rightarrow> jsnum" where
  "totalPages s = ceilDiv (int (length (filteredData s))) (itemsPerPage s)"

definition goToPage :: "int \<Rightarrow> searchAnalytics \<Rightarrow> searchAnalytics" where
  "goToPage page s =
     (if num_ge (Fin (of_int page)) (Fin 1) \<and> num_ge (totalPages s) (Fin (of_int page))
      then s\<lparr>currentPage := page\<rparr> else s)"

text \<open>
  The two values the comparator of \<open>sortTable(field)\<close> compares, for the fields other
  than \<open>timestamp\<close>; an unknown field leaves both \<open>undefined\<close>.
\<close>

definition sortKeyOf :: "string \<Rightarrow> jsobject \<Rightarrow> jsval" where
  "sortKeyOf fld a =
     (let d = getProperty (JObj a) ''data'' in
      if fld = ''severity'' then js_or (optGet (optGet d ''rule'') ''level'') (JNum 0)
      else if fld = ''agent_name'' then js_or (optGet (optGet d ''agent'') ''name'') (JStr [])
      else if fld = ''rule_description'' then
        js_or (optGet (optGet d ''rule'') ''description'') (JStr [])
      else if fld = ''rule_id'' then js_or (optGet (optGet d ''rule'') ''id'') (JStr [])
      else if fld = ''location'' then js_or (optGet d ''location'') (JStr [])
      else JUndefined)"

definition hitGreater :: "host \<Rightarrow> string \<Rightarrow> jsobject \<Rightarrow> jsobject \<Rightarrow> bool" where
  "hitGreater H fld a b =
     (if fld = ''timestamp'' then
        num_gt (dateValue H (getProperty (JObj a) ''timestamp''))
               (dateValue H (getProperty (JObj b) ''timestamp''))
      else js_gt H (sortKeyOf fld a) (sortKeyOf fld b))"

definition hitLess :: "host \<Rightarrow> string \<Rightarrow> jsobject \<Rightarrow> jsobject \<Rightarrow> bool" where
  "hitLess H fld a b =
     (if fld = ''timestamp'' then
        num_lt (dateValue H (getProperty (JObj a) ''timestamp''))
               (dateValue H (getProperty (JObj b) ''timestamp''))
      else js_lt H (sortKeyOf fld a) (sortKeyOf fld b))"

text \<open>The comparator: it answers 1 or -1, never 0.\<close>

definition compareHits :: "host \<Rightarrow> string \<Rightarrow> string \<Rightarrow> jsobject \<Rightarrow> jsobject \<Rightarrow> int" where
  "compareHits H fld dir a b =
     (if dir = ''asc'' then (if hitGreater H fld a b then 1 else - 1)
      else (if hitLess H fld a b then 1 else - 1))"

text \<open>
  \<open>sortTable(field)\<close>: the same field flips the direction, a new field starts
  descending; \<open>filteredData\<close> is sorted in place and the table rendered again.
\<close>

definition sortTable :: "host \<Rightarrow> string \<Rightarrow> searchAnalytics \<Rightarrow> searchAnalytics" where
  "sortTable H fld s =
     (let s1 = (if sortField s = fld
                then s\<lparr>sortDirection := (if sortDirection s = ''asc'' then ''desc'' else ''asc'')\<rparr>
                else s\<lparr>sortField := fld, sortDirection := ''desc''\<rparr>)
      in s1\<lparr>filteredData := array_sort (compareHits H fld (sortDirection s1)) (filteredData s1)\<rparr>)"

section \<open>ProfessionalSOCDashboard: the alerts table\<close>

text \<open>An alert of \<open>state.alerts\<close>, with the fields the table filters, sorts and shows.\<close>

record alert =
  alert_id :: string
  timestamp :: string
  severity :: int
  agent_name :: string
  agent_ip :: string
  rule_description :: string
  rule_id :: string

record currentFilters =
  search_f :: string
  severity_f :: string
  agent_f :: string
  timeRange_f :: string

record sortConfig =
  key :: string
  direction :: string

record socState =
  alerts :: "alert list"
  filteredAlerts :: "alert list"
  currentPage_soc :: int
  itemsPerPage_soc :: int
  totalPages_soc :: jsnum
  currentFilters :: currentFilters
  sortConfig :: sortConfig

text \<open>\<open>a[key]\<close> on an alert.\<close>

definition alertProp :: "alert \<Rightarrow> string \<Rightarrow> jsval" where
  "alertProp a k =
     (if k = ''id'' then JStr (alert_id a)
      else if k = ''timestamp'' then JStr (timestamp a)
      else if k = ''severity'' then JNum (severity a)
      else if k = ''agent_name'' then JStr (agent_name a)
      else if k = ''agent_ip'' then JStr (agent_ip a)
      else if k = ''rule_description'' then JStr (rule_description a)
      else if k = ''rule_id'' then JStr (rule_id a)
      else JUndefined)"

definition alertLess :: "host \<Rightarrow> string \<Rightarrow> alert \<Rightarrow> alert \<Rightarrow> bool" where
  "alertLess H k a b =
     (if k = ''timestamp'' then num_lt (dateValue H (alertProp a k)) (dateValue H (alertProp b k))
      else if k = ''severity'' then num_lt (parseInt (alertProp a k)) (parseInt (alertProp b k))
      else js_lt H (alertProp a k) (alertProp b k))"

text \<open>The comparator of \<open>sortAlerts\<close>: less, greater, or 0 for a tie.\<close>

definition compareAlerts :: "host \<Rightarrow> string \<Rightarrow> string \<Rightarrow> alert \<Rightarrow> alert \<Rightarrow> int" where
  "compareAlerts H k dir a b =
     (if alertLess H k a b then (if dir = ''asc'' then - 1 else 1)
      else if alertLess H k b a then (if dir = ''asc'' then 1 else - 1)
      else 0)"

definition sortAlerts :: "host \<Rightarrow> alert list \<Rightarrow> string \<Rightarrow> string \<Rightarrow> alert list" where
  "sortAlerts H as k dir = array_sort (compareAlerts H k dir) as"

definition matchesFilters :: "currentFilters \<Rightarrow> alert \<Rightarrow> bool" where
  "matchesFilters cf a =
     (let matchesSearch =
            (search_f cf = [] \<or>
             includes_str (toLowerCase (rule_description a)) (search_f cf) \<or>
             includes_str (toLowerCase (agent_name a)) (search_f cf) \<or>
             includes_str (toLowerCase (rule_id a)) (search_f cf));
          matchesSeverity =
            (severity_f cf = [] \<or>
             num_ge (Fin (of_int (severity a))) (parseInt (JStr (severity_f cf))));
          matchesAgent = (agent_f cf = [] \<or> agent_name a = agent_f cf)
      in matchesSearch \<and> matchesSeverity \<and> matchesAgent)"

text \<open>
  \<open>applyFilters()\<close>: filter \<open>state.alerts\<close>, sort the result by the current sort
  configuration, go back to page 1, then redraw the table and the pagination bar, which
  stores \<open>totalPages\<close>.
\<close>

definition applyFilters :: "host \<Rightarrow> socState \<Rightarrow> socState" where
  "applyFilters H s =
     (let filtered = filter (matchesFilters (currentFilters s)) (alerts s);
          sorted = sortAlerts H filtered (key (sortConfig s)) (direction (sortConfig s))
      in s\<lparr>filteredAlerts := sorted,
           currentPage_soc := 1,
           totalPages_soc := ceilDiv (int (length sorted)) (itemsPerPage_soc s)\<rparr>)"

text \<open>\<open>sortTable(key, header)\<close> of the dashboard: set the sort, then \<open>applyFilters()\<close>.\<close>

definition sortTable_soc :: "host \<Rightarrow> string \<Rightarrow> socState \<Rightarrow> socState" where
  "sortTable_soc H k s =
     (let sc = sortConfig s;
          sc' = (if key sc = k
                 then sc\<lparr>direction := (if direction sc = ''asc'' then ''desc'' else ''asc'')\<rparr>
                 else sc\<lparr>key := k, direction := ''desc''\<rparr>)
      in applyFilters H (s\<lparr>sortConfig := sc'\<rparr>))"

text \<open>The rows \<open>updateAlertsTable()\<close> shows.\<close>

definition pageAlerts :: "socState \<Rightarrow> alert list" where
  "pageAlerts s =
     (let startIndex = (currentPage_soc s - 1) * itemsPerPage_soc s;
          endIndex = startIndex + itemsPerPage_soc s
      in js_slice (filteredAlerts s) startIndex endIndex)"

text \<open>
  The part of \<open>loadDashboardData()\<close> that follows a successful fetch: the alerts of the
  response replace \<open>state.alerts\<close> and the filters are applied.
\<close>

definition loadDashboardData :: "host \<Rightarrow> alert list \<Rightarrow> socState \<Rightarrow> socState" where
  "loadDashboardData H as s = applyFilters H (s\<lparr>alerts := as\<rparr>)"

section \<open>ThreatIntelDashboard: pages and refresh\<close>

text \<open>
  The state the page count and the refresh paths read and write. \<open>pendingLoads\<close>
  counts the calls of \<open>loadAlertsData\<close> or \<open>loadFeedsData\<close> whose fetch has not settled
  yet; \<open>refreshBtnPresent\<close> says whether the page has the refresh button.
\<close>

record threatIntel =
  filteredAlerts_ti :: "jsobject list"
  alertsPerPage :: int
  isRefreshing :: bool
  alertsAutoRefresh :: bool
  feedsAutoRefresh :: bool
  activeTabName :: string
  refreshBtnPresent :: bool
  pendingLoads :: nat

definition getTotalAlertsPages :: "threatIntel \<Rightarrow> jsnum" where
  "getTotalAlertsPages t = ceilDiv (int (length (filteredAlerts_ti t))) (alertsPerPage t)"

text \<open>
  \<open>refreshAllData()\<close> up to its \<open>await\<close>: nothing when a refresh is running, else the
  flag is set and, when the button exists, a load is started.
\<close>

definition refreshAllData_begin :: "threatIntel \<Rightarrow> threatIntel" where
  "refreshAllData_begin t =
     (if isRefreshing t then t
      else if \<not> refreshBtnPresent t then t\<lparr>isRefreshing := False\<rparr>
      else t\<lparr>isRefreshing := True, pendingLoads := pendingLoads t + 1\<rparr>)"

text \<open>Its \<open>finally\<close> block, once the awaited load has settled, with or without an error.\<close>

definition refreshAllData_finally :: "bool \<Rightarrow> threatIntel \<Rightarrow> threatIntel" where
  "refreshAllData_finally ok t = t\<lparr>isRefreshing := False, pendingLoads := pendingLoads t - 1\<rparr>"

text \<open>
  The callback of the timer that \<open>startAutoRefresh()\<close> sets: it loads the active tab
  when auto refresh is on for it, and does not read \<open>isRefreshing\<close>.
\<close>

definition autoRefreshTick :: "threatIntel \<Rightarrow> threatIntel" where
  "autoRefreshTick t =
     (if activeTabName t = ''alerts'' \<and> alertsAutoRefresh t then t\<lparr>pendingLoads := pendingLoads t + 1\<rparr>
      else if activeTabName t = ''feeds'' \<and> feedsAutoRefresh t then t\<lparr>pendingLoads := pendingLoads t + 1\<rparr>
      else t)"

section \<open>The guarded polling loops\<close>

text \<open>
  An \<open>async\<close> function runs up to its \<open>await\<close> in one step and resumes in a later step
  when the awaited promise has settled. \<open>FIMRealTime.updateFIMData\<close> is guarded by
  \<open>isUpdating\<close>; \<open>inFlight\<close> counts the loads it has started and that have not settled.
\<close>

record fimRealTime =
  isUpdating :: bool
  inFlight :: nat

datatype pollEvent = TimerFired | BecameVisible | LoadSettled bool

definition updateFIMData_begin :: "fimRealTime \<Rightarrow> fimRealTime" where
  "updateFIMData_begin s =
     (if isUpdating s then s else s\<lparr>isUpdating := True, inFlight := inFlight s + 1\<rparr>)"

definition updateFIMData_finally :: "bool \<Rightarrow> fimRealTime \<Rightarrow> fimRealTime" where
  "updateFIMData_finally ok s = s\<lparr>isUpdating := False, inFlight := inFlight s - 1\<rparr>"

text \<open>One step of the loop; a load can only settle when one is in flight.\<close>

fun fimStep :: "fimRealTime \<Rightarrow> pollEvent \<Rightarrow> fimRealTime" where
  "fimStep s TimerFired = updateFIMData_begin s"
| "fimStep s BecameVisible = updateFIMData_begin s"
| "fimStep s (LoadSettled ok) = (if inFlight s = 0 then s else updateFIMData_finally ok s)"

definition fimInit :: fimRealTime where
  "fimInit = \<lparr>isUpdating = False, inFlight = 0\<rparr>"

definition fimRun :: "pollEvent list \<Rightarrow> fimRealTime" where
  "fimRun es = foldl fimStep fimInit es"

text \<open>
  \<open>RealTimeManager.fetchUpdates\<close>: the timer, a retry after an error and a manual
  refresh all call it; a failure counts a retry.
\<close>

record realTimeManager =
  isUpdating_rtm :: bool
  retryCount :: nat
  inFlight_rtm :: nat

datatype rtmEvent = FetchUpdatesCalled | FetchSettled bool

definition fetchUpdates_begin :: "realTimeManager \<Rightarrow> realTimeManager" where
  "fetchUpdates_begin s =
     (if isUpdating_rtm s then s
      else s\<lparr>isUpdating_rtm := True, inFlight_rtm := inFlight_rtm s + 1\<rparr>)"

definition fetchUpdates_settle :: "bool \<Rightarrow> realTimeManager \<Rightarrow> realTimeManager" where
  "fetchUpdates_settle ok s =
     (let s1 = (if ok then s\<lparr>retryCount := 0\<rparr> else s\<lparr>retryCount := retryCount s + 1\<rparr>)
      in s1\<lparr>isUpdating_rtm := False, inFlight_rtm := inFlight_rtm s1 - 1\<rparr>)"

fun rtmStep :: "realTimeManager \<Rightarrow> rtmEvent \<Rightarrow> realTimeManager" where
  "rtmStep s FetchUpdatesCalled = fetchUpdates_begin s"
| "rtmStep s (FetchSettled ok) = (if inFlight_rtm s = 0 then s else fetchUpdates_settle ok s)"

definition rtmInit :: realTimeManager where
  "rtmInit = \<lparr>isUpdating_rtm = False, retryCount = 0, inFlight_rtm = 0\<rparr>"

definition rtmRun :: "rtmEvent list \<Rightarrow> realTimeManager" where
  "rtmRun es = foldl rtmStep rtmInit es"

section \<open>Vocabulary of the properties\<close>

text \<open>The operators the filter rows offer, and the two fields compared as numbers.\<close>

definition recognizedOperators :: "string list" where
  "recognizedOperators =
     [''equals'', ''contains'', ''starts_with'', ''ends_with'',
      ''greater_than'', ''less_than'', ''exists'', ''not_exists'']"

definition numericFields :: "string list" where
  "numericFields = [''rule.level'', ''data.win.system.eventID'']"

text \<open>The object a filter looks into: \<open>hit.data || {}\<close>.\<close>

definition hitSource :: "jsobject \<Rightarrow> jsval" where
  "hitSource hit = js_or (getProperty (JObj hit) ''data'') (JObj [])"

text \<open>
  The numeric reading of a filter, in the words of the specification: both sides are
  parsed as floating point, what is not a number counts as 0, and the numbers are
  compared.
\<close>

definition numberOrZero :: "jsval \<Rightarrow> jsnum" where
  "numberOrZero v = (case parseFloat v of NaN \<Rightarrow> Fin 0 | n \<Rightarrow> n)"

definition numericMatch :: "jsobject \<Rightarrow> activeFilter \<Rightarrow> bool" where
  "numericMatch hit f =
     (let a = numberOrZero (getNestedValue (hitSource hit) (field f));
          b = numberOrZero (JStr (filterValue f))
      in if operator f = ''greater_than'' then num_gt a b else num_lt a b)"

text \<open>The coerced string form of a field: \<open>String(fieldValue || '').toLowerCase()\<close>.\<close>

definition coercedString :: "jsobject \<Rightarrow> string \<Rightarrow> string" where
  "coercedString hit path =
     toLowerCase (js_String (js_or (getNestedValue (hitSource hit) path) (JStr [])))"

text \<open>A path is missing when some step of it finds no such property.\<close>

fun pathMissing :: "jsval \<Rightarrow> string list \<Rightarrow> bool" where
  "pathMissing v [] = False"
| "pathMissing v (k # ks) =
     (if truthy v \<and> typeofObject v \<and> hasProperty v k then pathMissing (getProperty v k) ks
      else True)"

subsection \<open>Example inputs\<close>

definition mkFilter :: "string \<Rightarrow> string \<Rightarrow> string \<Rightarrow> activeFilter" where
  "mkFilter fld op v = \<lparr>filterId = ''1'', field = fld, operator = op, filterValue = v\<rparr>"

text \<open>A hit with an agent, a level, an empty rule description and no \<open>syscheck\<close>.\<close>

definition hitSrv01 :: jsobject where
  "hitSrv01 =
     [(''id'', JStr ''h1''),
      (''timestamp'', JStr ''2024-05-01T10:00:00Z''),
      (''data'', JObj [(''agent'', JObj [(''id'', JStr ''3''), (''name'', JStr ''srv01'')]),
                      (''rule'', JObj [(''level'', JNum 7), (''description'', JStr [])])])]"

text \<open>A hit whose data has no \<open>rule\<close> at all.\<close>

definition hitNoRule :: jsobject where
  "hitNoRule =
     [(''id'', JStr ''h2''),
      (''timestamp'', JStr ''2024-05-01T10:05:00Z''),
      (''data'', JObj [(''agent'', JObj [(''id'', JStr ''4''), (''name'', JStr ''web02'')])])]"

text \<open>A host whose dates never parse; it serves where no date is compared.\<close>

definition hostNone :: host where
  "hostNone = \<lparr>dateTime = (\<lambda>v. None), relLt = (\<lambda>a b. False)\<rparr>"

text \<open>The states the constructors build.\<close>

definition searchInit :: searchAnalytics where
  "searchInit =
     \<lparr>currentPage = 1, itemsPerPage = 25, currentData = [], filteredData = [],
      sortField = ''timestamp'', sortDirection = ''desc'', activeFilters = []\<rparr>"

definition socInit :: socState where
  "socInit =
     \<lparr>alerts = [], filteredAlerts = [], currentPage_soc = 1, itemsPerPage_soc = 25,
      totalPages_soc = Fin 1,
      currentFilters = \<lparr>search_f = [], severity_f = [], agent_f = [], timeRange_f = ''24''\<rparr>,
      sortConfig = \<lparr>key = ''timestamp'', direction = ''desc''\<rparr>\<rparr>"

definition tiInit :: threatIntel where
  "tiInit =
     \<lparr>filteredAlerts_ti = [], alertsPerPage = 20, isRefreshing = False,
      alertsAutoRefresh = False, feedsAutoRefresh = False, activeTabName = ''alerts'',
      refreshBtnPresent = True, pendingLoads = 0\<rparr>"

text \<open>Thirty hits, numbered, on the second page of the search results.\<close>

definition hitNumbered :: "nat \<Rightarrow> jsobject" where
  "hitNumbered n = [(''id'', JNum (int n)), (''data'', JObj [])]"

definition search30 :: searchAnalytics where
  "search30 =
     searchInit\<lparr>currentData := map hitNumbered [0..<30],
                filteredData := map hitNumbered [0..<30],
                currentPage := 2\<rparr>"

definition mkAlert :: "string \<Rightarrow> int \<Rightarrow> alert" where
  "mkAlert i sv =
     \<lparr>alert_id = i, timestamp = ''2024-05-01T10:00:00Z'', severity = sv, agent_name = ''srv01'',
      agent_ip = ''10.0.0.1'', rule_description = ''login failure'', rule_id = ''5710''\<rparr>"

text \<open>The alerts dashboard with 26 alerts, showing its second page.\<close>

definition socOnPage2 :: socState where
  "socOnPage2 =
     socInit\<lparr>alerts := map (\<lambda>n. mkAlert (stringOfNat n) 5) [0..<26],
             filteredAlerts := map (\<lambda>n. mkAlert (stringOfNat n) 5) [0..<26],
             totalPages_soc := Fin 2,
             currentPage_soc := 2\<rparr>"




subsection \<open>Predicates of the properties\<close>


text \<open>The guard invariant of the two polling loops: the flag is set exactly while the one
  load is in flight.\<close>

definition fimGuard :: "fimRealTime \<Rightarrow> bool" where
  "fimGuard s = (inFlight s \<le> 1 \<and> isUpdating s = (inFlight s = 1))"

definition rtmGuard :: "realTimeManager \<Rightarrow> bool" where
  "rtmGuard s = (inFlight_rtm s \<le> 1 \<and> isUpdating_rtm s = (inFlight_rtm s = 1))"


section \<open>Properties\<close>

subsection \<open>Filter evaluation\<close>

lemma num_or_zero_eq: "num_or_zero (parseFloat v) = numberOrZero v"
  by (cases "parseFloat v") (auto simp: num_or_zero_def numberOrZero_def)

lemma nestedStep_empty: "foldl nestedStep (JStr []) ks = JStr []"
  by (induction ks) (simp_all add: nestedStep_def)

lemma pathMissing_empty: "pathMissing v ks \<Longrightarrow> foldl nestedStep v ks = JStr []"
proof (induction ks arbitrary: v)
  case Nil
  then show ?case by simp
next
  case (Cons k ks)
  show ?case
  proof (cases "truthy v \<and> typeofObject v \<and> hasProperty v k")
    case True
    with Cons.prems have "pathMissing (getProperty v k) ks" by simp
    from Cons.IH[OF this] have "foldl nestedStep (getProperty v k) ks = JStr []" .
    moreover from True have "nestedStep v k = getProperty v k" by (simp add: nestedStep_def)
    ultimately show ?thesis by simp
  next
    case False
    then have "nestedStep v k = JStr []" by (auto simp add: nestedStep_def)
    then show ?thesis by (simp add: nestedStep_empty)
  qed
qed

lemma missing_path_counts_as_zero:
  "pathMissing (hitSource hit) (split CHR ''.'' p)
     \<Longrightarrow> numberOrZero (getNestedValue (hitSource hit) p) = Fin 0"
  unfolding getNestedValue_def
  by (simp add: pathMissing_empty numberOrZero_def parseFloat_def parseFloat_str_def)

text \<open>
  C1, as the code has it: on the two numeric fields \<open>rule.level\<close> and
  \<open>data.win.system.eventID\<close>, a \<open>greater_than\<close> or \<open>less_than\<close> filter parses the field
  value and the comparison value as floating point, counts what is not a number as 0,
  and matches exactly when the numeric comparison holds; a missing path counts as 0.
\<close>

theorem numeric_fields_compare_numbers:
  assumes "field f \<in> set numericFields"
    and "operator f = ''greater_than'' \<or> operator f = ''less_than''"
  shows "evaluateFilter hit f = numericMatch hit f
       \<and> (pathMissing (hitSource hit) (split CHR ''.'' (field f))
            \<longrightarrow> numberOrZero (getNestedValue (hitSource hit) (field f)) = Fin 0)"
proof -
  from assms(1) have numeric: "field f = ''rule.level'' \<or> field f = ''data.win.system.eventID''"
    by (simp add: numericFields_def)
  have "evaluateFilter hit f = numericMatch hit f"
    using numeric assms(2)
    by (auto simp: evaluateFilter_def numericMatch_def hitSource_def Let_def num_or_zero_eq)
  then show ?thesis
    by (simp add: missing_path_counts_as_zero)
qed

theorem numeric_fields_compare_numbers_witness:
  "field (mkFilter ''rule.level'' ''greater_than'' ''5'') \<in> set numericFields
   \<and> operator (mkFilter ''rule.level'' ''greater_than'' ''5'') = ''greater_than''
   \<and> evaluateFilter hitSrv01 (mkFilter ''rule.level'' ''greater_than'' ''5'')
   \<and> numericMatch hitSrv01 (mkFilter ''rule.level'' ''greater_than'' ''5'')
   \<and> pathMissing (hitSource hitNoRule) (split CHR ''.'' ''rule.level'')
   \<and> numberOrZero (getNestedValue (hitSource hitNoRule) ''rule.level'') = Fin 0
   \<and> \<not> evaluateFilter hitNoRule (mkFilter ''rule.level'' ''greater_than'' ''5'')"
proof -
  let ?f = "mkFilter ''rule.level'' ''greater_than'' ''5''"
  have fld: "field ?f \<in> set numericFields" by (simp add: mkFilter_def numericFields_def)
  have opr: "operator ?f = ''greater_than'' \<or> operator ?f = ''less_than''"
    by (simp add: mkFilter_def)
  have m1: "numericMatch hitSrv01 ?f" by code_simp
  have pm: "pathMissing (hitSource hitNoRule) (split CHR ''.'' ''rule.level'')" by code_simp
  have m2: "\<not> numericMatch hitNoRule ?f" by code_simp
  have fl: "field ?f = ''rule.level''" by (simp add: mkFilter_def)
  from numeric_fields_compare_numbers[OF fld opr, of hitSrv01]
       numeric_fields_compare_numbers[OF fld opr, of hitNoRule] m1 m2 pm fld fl
  show ?thesis by (simp add: mkFilter_def)
qed

text \<open>
  C1 as stated fails: on any other field, here \<open>agent.id\<close>, a \<open>greater_than\<close> filter
  takes the string branch, which has no case for it, and matches although 3 is not
  greater than 5.
\<close>

theorem numeric_operator_on_string_field_counterexample:
  "operator (mkFilter ''agent.id'' ''greater_than'' ''5'') = ''greater_than''
   \<and> evaluateFilter hitSrv01 (mkFilter ''agent.id'' ''greater_than'' ''5'')
   \<and> \<not> numericMatch hitSrv01 (mkFilter ''agent.id'' ''greater_than'' ''5'')"
  by code_simp

text \<open>
  C2, as the code has it: a filter whose operator is none of the recognized ones is
  evaluated to a value, and that value is \<open>true\<close>: it matches every record, so filtering
  with it keeps every record.
\<close>

theorem unknown_operator_matches_all:
  assumes "operator f \<notin> set recognizedOperators"
  shows "evaluateFilter hit f = True \<and> filter (\<lambda>hit. evaluateFilter hit f) hits = hits"
proof -
  have "evaluateFilter h f" for h
    using assms by (simp add: evaluateFilter_def recognizedOperators_def Let_def)
  then show ?thesis by simp
qed

theorem unknown_operator_matches_all_witness:
  "operator (mkFilter ''rule.level'' ''regex'' ''^1'') \<notin> set recognizedOperators
   \<and> evaluateFilter hitNoRule (mkFilter ''rule.level'' ''regex'' ''^1'') = True
   \<and> filter (\<lambda>hit. evaluateFilter hit (mkFilter ''rule.level'' ''regex'' ''^1''))
        [hitSrv01, hitNoRule] = [hitSrv01, hitNoRule]"
proof -
  have h: "operator (mkFilter ''rule.level'' ''regex'' ''^1'') \<notin> set recognizedOperators"
    by (simp add: mkFilter_def recognizedOperators_def)
  from unknown_operator_matches_all[OF h, of hitNoRule "[hitSrv01, hitNoRule]"] h
  show ?thesis by blast
qed

text \<open>
  C2 as stated fails: the unrecognized operator \<open>regex\<close> on \<open>agent.name\<close> matches the
  record, and the record stays in the filtered data.
\<close>

theorem unknown_operator_counterexample:
  "operator (mkFilter ''agent.name'' ''regex'' ''zzz'') \<notin> set recognizedOperators
   \<and> evaluateFilter hitSrv01 (mkFilter ''agent.name'' ''regex'' ''zzz'')
   \<and> filteredData
         (applyFiltersToData
            (searchInit\<lparr>currentData := [hitSrv01],
                        activeFilters := [mkFilter ''agent.name'' ''regex'' ''zzz'']\<rparr>))
       = [hitSrv01]"
  by (simp add: evaluateFilter_def mkFilter_def recognizedOperators_def applyFiltersToData_def
      searchInit_def)

lemma evaluateFilter_exists:
  assumes "field f \<notin> set numericFields" and "operator f = ''exists''"
  shows "evaluateFilter hit f =
     (coercedString hit (field f) \<noteq> [] \<and> coercedString hit (field f) \<noteq> ''undefined''
      \<and> coercedString hit (field f) \<noteq> ''null'')"
  using assms
  by (simp add: evaluateFilter_def coercedString_def hitSource_def numericFields_def Let_def)

lemma evaluateFilter_not_exists:
  assumes "field f \<notin> set numericFields" and "operator f = ''not_exists''"
  shows "evaluateFilter hit f =
     (coercedString hit (field f) = [] \<or> coercedString hit (field f) = ''undefined''
      \<or> coercedString hit (field f) = ''null'')"
  using assms
  by (simp add: evaluateFilter_def coercedString_def hitSource_def numericFields_def Let_def)

lemma coercedString_empty:
  "getNestedValue (hitSource hit) p = JStr [] \<Longrightarrow> coercedString hit p = []"
  by (simp add: coercedString_def js_or_def toLowerCase_def)

lemma coercedString_str:
  "getNestedValue (hitSource hit) p = JStr v \<Longrightarrow> coercedString hit p = toLowerCase v"
  by (simp add: coercedString_def js_or_def toLowerCase_def)

lemma toLowerCase_Nil_iff: "toLowerCase v = [] \<longleftrightarrow> v = []"
  by (simp add: toLowerCase_def)

text \<open>
  C6, as the code has it: on every field path other than the two numeric fields, an
  \<open>exists\<close> filter matches exactly when the coerced string form of the field value is
  not empty and is neither \<open>undefined\<close> nor \<open>null\<close>. So a field that holds the empty string
  and a field whose path is missing are both excluded, and a field that holds a
  non-empty string other than those two words (in any case) is included.
\<close>

theorem exists_filter_on_string_fields:
  assumes "field f \<notin> set numericFields" and "operator f = ''exists''"
  shows "(evaluateFilter hit f =
            (coercedString hit (field f) \<noteq> [] \<and> coercedString hit (field f) \<noteq> ''undefined''
             \<and> coercedString hit (field f) \<noteq> ''null''))
       \<and> (getNestedValue (hitSource hit) (field f) = JStr [] \<longrightarrow> \<not> evaluateFilter hit f)
       \<and> (pathMissing (hitSource hit) (split CHR ''.'' (field f)) \<longrightarrow> \<not> evaluateFilter hit f)
       \<and> (\<forall>v. getNestedValue (hitSource hit) (field f) = JStr v \<and> v \<noteq> []
              \<and> toLowerCase v \<noteq> ''undefined'' \<and> toLowerCase v \<noteq> ''null''
            \<longrightarrow> evaluateFilter hit f)"
proof -
  note ev = evaluateFilter_exists[OF assms, of hit]
  have a: "getNestedValue (hitSource hit) (field f) = JStr [] \<longrightarrow> \<not> evaluateFilter hit f"
    by (simp add: ev coercedString_empty)
  have b: "pathMissing (hitSource hit) (split CHR ''.'' (field f)) \<longrightarrow> \<not> evaluateFilter hit f"
  proof
    assume "pathMissing (hitSource hit) (split CHR ''.'' (field f))"
    then have "getNestedValue (hitSource hit) (field f) = JStr []"
      unfolding getNestedValue_def by (rule pathMissing_empty)
    with a show "\<not> evaluateFilter hit f" by simp
  qed
  have c: "\<forall>v. getNestedValue (hitSource hit) (field f) = JStr v \<and> v \<noteq> []
              \<and> toLowerCase v \<noteq> ''undefined'' \<and> toLowerCase v \<noteq> ''null''
            \<longrightarrow> evaluateFilter hit f"
    by (auto simp: ev coercedString_str toLowerCase_Nil_iff)
  from ev a b c show ?thesis by blast
qed

theorem exists_filter_on_string_fields_witness:
  "field (mkFilter ''agent.name'' ''exists'' []) \<notin> set numericFields
   \<and> operator (mkFilter ''agent.name'' ''exists'' []) = ''exists''
   \<and> getNestedValue (hitSource hitSrv01) ''agent.name'' = JStr ''srv01''
   \<and> evaluateFilter hitSrv01 (mkFilter ''agent.name'' ''exists'' [])
   \<and> getNestedValue (hitSource hitSrv01) ''rule.description'' = JStr []
   \<and> \<not> evaluateFilter hitSrv01 (mkFilter ''rule.description'' ''exists'' [])
   \<and> pathMissing (hitSource hitSrv01) (split CHR ''.'' ''syscheck.path'')
   \<and> \<not> evaluateFilter hitSrv01 (mkFilter ''syscheck.path'' ''exists'' [])"
proof -
  have f1: "field (mkFilter ''agent.name'' ''exists'' []) \<notin> set numericFields"
    and f2: "field (mkFilter ''rule.description'' ''exists'' []) \<notin> set numericFields"
    and f3: "field (mkFilter ''syscheck.path'' ''exists'' []) \<notin> set numericFields"
    by (simp_all add: mkFilter_def numericFields_def)
  have o: "operator (mkFilter p ''exists'' []) = ''exists''" for p
    by (simp add: mkFilter_def)
  have fld: "field (mkFilter p ''exists'' []) = p" for p
    by (simp add: mkFilter_def)
  have v1: "getNestedValue (hitSource hitSrv01) ''agent.name'' = JStr ''srv01''" by code_simp
  have v2: "getNestedValue (hitSource hitSrv01) ''rule.description'' = JStr []" by code_simp
  have v3: "pathMissing (hitSource hitSrv01) (split CHR ''.'' ''syscheck.path'')" by code_simp
  have l: "toLowerCase ''srv01'' \<noteq> ''undefined'' \<and> toLowerCase ''srv01'' \<noteq> ''null''"
    by (simp add: toLowerCase_def)
  from exists_filter_on_string_fields[OF f1 o, of hitSrv01] v1 l
  have e1: "evaluateFilter hitSrv01 (mkFilter ''agent.name'' ''exists'' [])"
    unfolding fld by blast
  from exists_filter_on_string_fields[OF f2 o, of hitSrv01] v2
  have e2: "\<not> evaluateFilter hitSrv01 (mkFilter ''rule.description'' ''exists'' [])"
    unfolding fld by blast
  from exists_filter_on_string_fields[OF f3 o, of hitSrv01] v3
  have e3: "\<not> evaluateFilter hitSrv01 (mkFilter ''syscheck.path'' ''exists'' [])"
    unfolding fld by blast
  from f1 o v1 v2 v3 e1 e2 e3 show ?thesis by blast
qed

text \<open>
  C6 as stated fails on a numeric field: the record has no \<open>rule.level\<close>, the coerced
  string form is empty, and the \<open>exists\<close> filter on \<open>rule.level\<close> still matches, because
  the numeric switch has no case for \<open>exists\<close>.
\<close>

theorem exists_on_numeric_field_counterexample:
  "pathMissing (hitSource hitNoRule) (split CHR ''.'' ''rule.level'')
   \<and> coercedString hitNoRule ''rule.level'' = []
   \<and> evaluateFilter hitNoRule (mkFilter ''rule.level'' ''exists'' [])"
  by code_simp

text \<open>
  C10, as the code has it: on every field path other than the two numeric fields, a
  \<open>not_exists\<close> filter matches a record exactly when the \<open>exists\<close> filter on the same path
  does not; and on every field path the outcome of either operator is the same for any
  two comparison values.
\<close>

theorem not_exists_complements_exists:
  "(field f \<notin> set numericFields \<longrightarrow>
      evaluateFilter hit (f\<lparr>operator := ''not_exists''\<rparr>)
        = (\<not> evaluateFilter hit (f\<lparr>operator := ''exists''\<rparr>)))
   \<and> (operator f = ''exists'' \<or> operator f = ''not_exists'' \<longrightarrow>
        evaluateFilter hit (f\<lparr>filterValue := v1\<rparr>) = evaluateFilter hit (f\<lparr>filterValue := v2\<rparr>))"
proof -
  have 1: "field f \<notin> set numericFields \<longrightarrow>
      evaluateFilter hit (f\<lparr>operator := ''not_exists''\<rparr>)
        = (\<not> evaluateFilter hit (f\<lparr>operator := ''exists''\<rparr>))"
    by (simp add: evaluateFilter_exists evaluateFilter_not_exists)
  have 2: "operator f = ''exists'' \<or> operator f = ''not_exists'' \<longrightarrow>
        evaluateFilter hit (f\<lparr>filterValue := v1\<rparr>) = evaluateFilter hit (f\<lparr>filterValue := v2\<rparr>)"
    by (auto simp: evaluateFilter_def Let_def)
  from 1 2 show ?thesis by simp
qed

theorem not_exists_complements_exists_witness:
  "field (mkFilter ''agent.name'' ''exists'' []) \<notin> set numericFields
   \<and> evaluateFilter hitSrv01 ((mkFilter ''agent.name'' ''exists'' [])\<lparr>operator := ''exists''\<rparr>)
   \<and> \<not> evaluateFilter hitSrv01 ((mkFilter ''agent.name'' ''exists'' [])\<lparr>operator := ''not_exists''\<rparr>)
   \<and> evaluateFilter hitSrv01 ((mkFilter ''agent.name'' ''exists'' [])\<lparr>filterValue := ''a''\<rparr>)
       = evaluateFilter hitSrv01 ((mkFilter ''agent.name'' ''exists'' [])\<lparr>filterValue := ''srv''\<rparr>)"
proof -
  let ?f = "mkFilter ''agent.name'' ''exists'' []"
  have f1: "field ?f \<notin> set numericFields" by (simp add: mkFilter_def numericFields_def)
  have o: "operator ?f = ''exists'' \<or> operator ?f = ''not_exists''" by (simp add: mkFilter_def)
  have e: "evaluateFilter hitSrv01 (?f\<lparr>operator := ''exists''\<rparr>)" by code_simp
  from not_exists_complements_exists[of ?f hitSrv01 "''a''" "''srv''"] f1 o e
  show ?thesis by blast
qed

text \<open>
  C10 as stated fails on a numeric field: on \<open>rule.level\<close> the \<open>exists\<close> filter and the
  \<open>not_exists\<close> filter both match the same record.
\<close>

theorem exists_and_not_exists_both_match_counterexample:
  "evaluateFilter hitNoRule (mkFilter ''rule.level'' ''exists'' [])
   \<and> evaluateFilter hitNoRule (mkFilter ''rule.level'' ''not_exists'' [])"
  by (simp add: evaluateFilter_def mkFilter_def)

subsection \<open>Filtering a record set\<close>



lemma set_insertSorted: "set (insertSorted c x ys) = insert x (set ys)"
  by (induction ys) auto

lemma array_sort_Cons: "array_sort c (x # xs) = insertSorted c x (array_sort c xs)"
  by (simp add: array_sort_def)

lemma set_array_sort: "set (array_sort c xs) = set xs"
  by (induction xs) (simp_all add: array_sort_Cons set_insertSorted, simp add: array_sort_def)







subsection \<open>Pages\<close>

lemma js_slice_take_drop:
  assumes "0 \<le> a" and "a \<le> b"
  shows "js_slice xs a b = take (nat (b - a)) (drop (nat a) xs)"
proof (cases "a < int (length xs)")
  case True
  show ?thesis
  proof (cases "b < int (length xs)")
    case True
    with assms \<open>a < int (length xs)\<close> show ?thesis
      by (simp add: js_slice_def Let_def min_def)
  next
    case False
    with assms \<open>a < int (length xs)\<close> show ?thesis
      by (simp add: js_slice_def Let_def min_def)
  qed
next
  case False
  with assms show ?thesis
    by (simp add: js_slice_def Let_def min_def)
qed

lemma ceilDiv_pos: "0 < b \<Longrightarrow> ceilDiv a b = Fin (of_int \<lceil>(of_int a :: rat) / of_int b\<rceil>)"
  by (simp add: ceilDiv_def)

lemma num_ge_Fin: "num_ge (Fin a) (Fin b) = (b \<le> a)"
  by (auto simp: num_ge_def num_gt_def num_eq_def)

lemma ceiling_ge_one:
  assumes "0 < (n::int)" and "0 < (b::int)"
  shows "1 \<le> \<lceil>(of_int n :: rat) / of_int b\<rceil>"
proof -
  from assms have "0 < (of_int n :: rat) / of_int b" by simp
  then show ?thesis by linarith
qed

lemma beyond_last_page:
  assumes "0 < (b::int)" and "\<lceil>(of_int n :: rat) / of_int b\<rceil> < p"
  shows "n \<le> (p - 1) * b"
proof -
  from assms(2) have "\<lceil>(of_int n :: rat) / of_int b\<rceil> \<le> p - 1" by simp
  then have "(of_int n :: rat) / of_int b \<le> of_int (p - 1)" by (simp only: ceiling_le_iff)
  with assms(1) have "(of_int n :: rat) \<le> of_int (p - 1) * of_int b"
    by (simp add: pos_divide_le_eq)
  then have "(of_int n :: rat) \<le> of_int ((p - 1) * b)" by simp
  then show ?thesis by (simp only: of_int_le_iff)
qed

lemma pageData_take_drop:
  assumes "1 \<le> currentPage s" and "0 < itemsPerPage s"
  shows "pageData s = take (nat (itemsPerPage s))
            (drop (nat ((currentPage s - 1) * itemsPerPage s)) (filteredData s))"
proof -
  from assms have "0 \<le> (currentPage s - 1) * itemsPerPage s" by simp
  moreover from assms
  have "(currentPage s - 1) * itemsPerPage s
          \<le> (currentPage s - 1) * itemsPerPage s + itemsPerPage s" by simp
  ultimately show ?thesis
    by (simp add: pageData_def Let_def js_slice_take_drop)
qed

lemma pageAlerts_take_drop:
  assumes "1 \<le> currentPage_soc u" and "0 < itemsPerPage_soc u"
  shows "pageAlerts u = take (nat (itemsPerPage_soc u))
            (drop (nat ((currentPage_soc u - 1) * itemsPerPage_soc u)) (filteredAlerts u))"
proof -
  from assms have "0 \<le> (currentPage_soc u - 1) * itemsPerPage_soc u" by simp
  moreover from assms
  have "(currentPage_soc u - 1) * itemsPerPage_soc u
          \<le> (currentPage_soc u - 1) * itemsPerPage_soc u + itemsPerPage_soc u" by simp
  ultimately show ?thesis
    by (simp add: pageAlerts_def Let_def js_slice_take_drop)
qed

lemma pageData_beyond:
  assumes "1 \<le> currentPage s" and "0 < itemsPerPage s"
    and "num_lt (totalPages s) (Fin (of_int (currentPage s)))"
  shows "pageData s = []"
proof -
  from assms(2,3)
  have "\<lceil>(of_int (int (length (filteredData s))) :: rat) / of_int (itemsPerPage s)\<rceil>
          < currentPage s"
    by (simp add: totalPages_def ceilDiv_pos)
  from beyond_last_page[OF assms(2) this]
  have "int (length (filteredData s)) \<le> (currentPage s - 1) * itemsPerPage s" .
  then have "length (filteredData s) \<le> nat ((currentPage s - 1) * itemsPerPage s)" by linarith
  then show ?thesis by (simp add: pageData_take_drop[OF assms(1,2)])
qed

lemma thirty_by_twenty_five:
  assumes "length (filteredData s) = 30" and "itemsPerPage s = 25"
  shows "length (pageData (s\<lparr>currentPage := 1\<rparr>)) = 25
       \<and> length (pageData (s\<lparr>currentPage := 2\<rparr>)) = 5
       \<and> pageData (s\<lparr>currentPage := 3\<rparr>) = []"
  using assms by (simp add: pageData_def Let_def js_slice_def)

lemma totalPages_nonempty:
  assumes "0 < itemsPerPage s" and "filteredData s \<noteq> []"
  shows "num_ge (totalPages s) (Fin 1)"
proof -
  from assms(2) have "0 < int (length (filteredData s))" by simp
  from ceiling_ge_one[OF this assms(1)]
  have "(1::rat) \<le> of_int \<lceil>(of_int (int (length (filteredData s))) :: rat)
                               / of_int (itemsPerPage s)\<rceil>"
    by (simp only: of_int_1_le_iff)
  then show ?thesis
    by (simp only: totalPages_def ceilDiv_pos[OF assms(1)] num_ge_Fin)
qed

lemma loadDashboardData_empty:
  "0 < itemsPerPage_soc u \<Longrightarrow>
     totalPages_soc (loadDashboardData H [] u) = Fin 0 \<and> pageAlerts (loadDashboardData H [] u) = []"
  by (simp add: loadDashboardData_def applyFilters_def sortAlerts_def array_sort_def ceilDiv_def
      pageAlerts_def js_slice_def Let_def)

text \<open>
  C3, as the code has it: with a positive page size the page count is
  \<open>ceil(filteredCount / pageSize)\<close> and no minimum is applied, so it is 0 for an empty
  filtered set and at least 1 only for a non-empty one. After the record set has been
  replaced by the empty list the page count is 0 and page 1 is the empty list. The same
  holds for \<open>getTotalAlertsPages\<close> and for the alerts dashboard.
\<close>

theorem page_count_is_ceiling:
  assumes "0 < itemsPerPage s"
  shows "totalPages s
           = Fin (of_int \<lceil>(of_int (int (length (filteredData s))) :: rat) / of_int (itemsPerPage s)\<rceil>)
       \<and> totalPages (s\<lparr>filteredData := []\<rparr>) = Fin 0
       \<and> pageData (s\<lparr>filteredData := [], currentPage := 1\<rparr>) = []
       \<and> (filteredData s \<noteq> [] \<longrightarrow> num_ge (totalPages s) (Fin 1))
       \<and> (0 < alertsPerPage t \<longrightarrow>
            getTotalAlertsPages t
              = Fin (of_int \<lceil>(of_int (int (length (filteredAlerts_ti t))) :: rat)
                                / of_int (alertsPerPage t)\<rceil>)
            \<and> getTotalAlertsPages (t\<lparr>filteredAlerts_ti := []\<rparr>) = Fin 0)
       \<and> (0 < itemsPerPage_soc u \<longrightarrow>
            totalPages_soc (loadDashboardData H [] u) = Fin 0
            \<and> pageAlerts (loadDashboardData H [] u) = [])"
proof -
  have 1: "totalPages s
           = Fin (of_int \<lceil>(of_int (int (length (filteredData s))) :: rat) / of_int (itemsPerPage s)\<rceil>)"
    using assms by (simp add: totalPages_def ceilDiv_pos)
  have 2: "totalPages (s\<lparr>filteredData := []\<rparr>) = Fin 0"
    using assms by (simp add: totalPages_def ceilDiv_def)
  have 3: "pageData (s\<lparr>filteredData := [], currentPage := 1\<rparr>) = []"
    by (simp add: pageData_def js_slice_def Let_def)
  have 4: "filteredData s \<noteq> [] \<longrightarrow> num_ge (totalPages s) (Fin 1)"
    using assms by (simp add: totalPages_nonempty)
  have 5: "0 < alertsPerPage t \<longrightarrow>
            getTotalAlertsPages t
              = Fin (of_int \<lceil>(of_int (int (length (filteredAlerts_ti t))) :: rat)
                                / of_int (alertsPerPage t)\<rceil>)
            \<and> getTotalAlertsPages (t\<lparr>filteredAlerts_ti := []\<rparr>) = Fin 0"
    by (simp add: getTotalAlertsPages_def ceilDiv_def)
  have 6: "0 < itemsPerPage_soc u \<longrightarrow>
            totalPages_soc (loadDashboardData H [] u) = Fin 0
            \<and> pageAlerts (loadDashboardData H [] u) = []"
    by (simp add: loadDashboardData_empty)
  from 1 2 3 4 5 6 show ?thesis by blast
qed

theorem page_count_is_ceiling_witness:
  "0 < itemsPerPage search30
   \<and> totalPages search30 = Fin 2
   \<and> totalPages (search30\<lparr>filteredData := []\<rparr>) = Fin 0
   \<and> pageData (search30\<lparr>filteredData := [], currentPage := 1\<rparr>) = []
   \<and> num_ge (totalPages search30) (Fin 1)
   \<and> 0 < alertsPerPage tiInit
   \<and> getTotalAlertsPages tiInit = Fin 0
   \<and> 0 < itemsPerPage_soc socOnPage2
   \<and> totalPages_soc (loadDashboardData hostNone [] socOnPage2) = Fin 0
   \<and> pageAlerts (loadDashboardData hostNone [] socOnPage2) = []"
proof -
  have h: "0 < itemsPerPage search30" by (simp add: search30_def searchInit_def)
  have n: "filteredData search30 \<noteq> []" by (simp add: search30_def searchInit_def)
  have t: "0 < alertsPerPage tiInit" by (simp add: tiInit_def)
  have u: "0 < itemsPerPage_soc socOnPage2" by (simp add: socOnPage2_def socInit_def)
  have c: "\<lceil>(of_int (int (length (filteredData search30))) :: rat) / of_int (itemsPerPage search30)\<rceil> = 2"
  proof -
    have "\<lceil>(6::rat) / 5\<rceil> = 2" by (rule ceiling_unique) simp_all
    then show ?thesis by (simp add: search30_def searchInit_def)
  qed
  have e: "filteredAlerts_ti tiInit = []" by (simp add: tiInit_def)
  from page_count_is_ceiling[OF h, of tiInit socOnPage2 hostNone] h n t u c e
  show ?thesis by (simp add: num_ge_Fin)
qed

text \<open>
  C3 as stated fails: for the state the constructor builds, with no records, the page
  count is 0 and not at least 1.
\<close>

theorem page_count_zero_counterexample:
  "filteredData searchInit = []
   \<and> totalPages searchInit = Fin 0
   \<and> \<not> num_ge (totalPages searchInit) (Fin 1)
   \<and> getTotalAlertsPages tiInit = Fin 0"
  by (simp add: totalPages_def searchInit_def getTotalAlertsPages_def tiInit_def ceilDiv_def
      num_ge_def num_gt_def num_eq_def)

text \<open>
  C7: for a page number of at least 1 and a positive page size, the rows shown are the
  slice \<open>[(page - 1) * pageSize, page * pageSize)\<close> of the filtered and sorted sequence,
  and a page number beyond the page count shows the empty list. With 30 records and a
  page size of 25, page 1 has 25 rows, page 2 the other 5 and page 3 none. The alerts
  dashboard takes the same slice.
\<close>

theorem displayed_page_is_slice:
  assumes "1 \<le> currentPage s" and "0 < itemsPerPage s"
  shows "pageData s = take (nat (itemsPerPage s))
            (drop (nat ((currentPage s - 1) * itemsPerPage s)) (filteredData s))
       \<and> (num_lt (totalPages s) (Fin (of_int (currentPage s))) \<longrightarrow> pageData s = [])
       \<and> (length (filteredData s) = 30 \<and> itemsPerPage s = 25 \<longrightarrow>
            length (pageData (s\<lparr>currentPage := 1\<rparr>)) = 25
            \<and> length (pageData (s\<lparr>currentPage := 2\<rparr>)) = 5
            \<and> pageData (s\<lparr>currentPage := 3\<rparr>) = [])
       \<and> (1 \<le> currentPage_soc u \<and> 0 < itemsPerPage_soc u \<longrightarrow>
            pageAlerts u = take (nat (itemsPerPage_soc u))
              (drop (nat ((currentPage_soc u - 1) * itemsPerPage_soc u)) (filteredAlerts u)))"
proof -
  note a = pageData_take_drop[OF assms]
  have b: "num_lt (totalPages s) (Fin (of_int (currentPage s))) \<longrightarrow> pageData s = []"
    using assms by (simp add: pageData_beyond)
  have c: "length (filteredData s) = 30 \<and> itemsPerPage s = 25 \<longrightarrow>
            length (pageData (s\<lparr>currentPage := 1\<rparr>)) = 25
            \<and> length (pageData (s\<lparr>currentPage := 2\<rparr>)) = 5
            \<and> pageData (s\<lparr>currentPage := 3\<rparr>) = []"
    using thirty_by_twenty_five[of s] by blast
  have d: "1 \<le> currentPage_soc u \<and> 0 < itemsPerPage_soc u \<longrightarrow>
            pageAlerts u = take (nat (itemsPerPage_soc u))
              (drop (nat ((currentPage_soc u - 1) * itemsPerPage_soc u)) (filteredAlerts u))"
    using pageAlerts_take_drop[of u] by blast
  from a b c d show ?thesis by blast
qed

theorem displayed_page_is_slice_witness:
  "1 \<le> currentPage search30 \<and> 0 < itemsPerPage search30
   \<and> pageData search30 = map hitNumbered [25..<30]
   \<and> length (filteredData search30) = 30 \<and> itemsPerPage search30 = 25
   \<and> length (pageData (search30\<lparr>currentPage := 1\<rparr>)) = 25
   \<and> length (pageData (search30\<lparr>currentPage := 2\<rparr>)) = 5
   \<and> num_lt (totalPages (search30\<lparr>currentPage := 3\<rparr>)) (Fin 3)
   \<and> pageData (search30\<lparr>currentPage := 3\<rparr>) = []
   \<and> 1 \<le> currentPage_soc socOnPage2 \<and> 0 < itemsPerPage_soc socOnPage2
   \<and> pageAlerts socOnPage2 = [mkAlert ''25'' 5]"
proof -
  have p: "1 \<le> currentPage search30" and i: "0 < itemsPerPage search30"
    and l: "length (filteredData search30) = 30" and i25: "itemsPerPage search30 = 25"
    by (simp_all add: search30_def searchInit_def)
  have p3: "1 \<le> currentPage (search30\<lparr>currentPage := 3\<rparr>)"
    and i3: "0 < itemsPerPage (search30\<lparr>currentPage := 3\<rparr>)"
    by (simp_all add: search30_def searchInit_def)
  have t3: "num_lt (totalPages (search30\<lparr>currentPage := 3\<rparr>)) (Fin 3)"
    by (simp add: totalPages_def ceilDiv_def search30_def searchInit_def)
  have pu: "1 \<le> currentPage_soc socOnPage2" and iu: "0 < itemsPerPage_soc socOnPage2"
    by (simp_all add: socOnPage2_def socInit_def)
  have v: "take (nat (itemsPerPage search30))
            (drop (nat ((currentPage search30 - 1) * itemsPerPage search30)) (filteredData search30))
          = map hitNumbered [25..<30]"
    by (simp add: search30_def searchInit_def drop_map take_map)
  have s26: "stringOfNat 25 = ''25''" by code_simp
  have w: "take (nat (itemsPerPage_soc socOnPage2))
            (drop (nat ((currentPage_soc socOnPage2 - 1) * itemsPerPage_soc socOnPage2))
               (filteredAlerts socOnPage2))
          = [mkAlert ''25'' 5]"
    by (simp add: socOnPage2_def socInit_def drop_map take_map upt_rec[of 25] s26)
  from displayed_page_is_slice[OF p i, of socOnPage2]
       displayed_page_is_slice[OF p3 i3, of socOnPage2] p i l i25 t3 pu iu v w
  show ?thesis by simp
qed

subsection \<open>Setting the sort\<close>

text \<open>
  C4, as the code has it: a sort request on the current sort key flips the direction,
  a request on another key adopts it with descending direction, and the records and the
  filters stay as they are. \<open>SearchAnalytics.sortTable\<close> leaves the current page alone;
  \<open>ProfessionalSOCDashboard.sortTable\<close> goes through \<open>applyFilters()\<close>, which sets the
  current page to 1.
\<close>

theorem setting_the_sort:
  "sortField (sortTable H fld s) = fld
   \<and> sortDirection (sortTable H fld s)
        = (if sortField s = fld then (if sortDirection s = ''asc'' then ''desc'' else ''asc'')
           else ''desc'')
   \<and> currentPage (sortTable H fld s) = currentPage s
   \<and> currentData (sortTable H fld s) = currentData s
   \<and> activeFilters (sortTable H fld s) = activeFilters s
   \<and> set (filteredData (sortTable H fld s)) = set (filteredData s)
   \<and> key (sortConfig (sortTable_soc H k u)) = k
   \<and> direction (sortConfig (sortTable_soc H k u))
        = (if key (sortConfig u) = k
           then (if direction (sortConfig u) = ''asc'' then ''desc'' else ''asc'')
           else ''desc'')
   \<and> alerts (sortTable_soc H k u) = alerts u
   \<and> currentFilters (sortTable_soc H k u) = currentFilters u
   \<and> currentPage_soc (sortTable_soc H k u) = 1"
  by (simp add: sortTable_def sortTable_soc_def applyFilters_def Let_def set_array_sort)

text \<open>
  C4 as stated fails in the alerts dashboard: sorting while the second page is shown
  puts the dashboard back on page 1.
\<close>

theorem sort_resets_page_counterexample:
  "currentPage_soc socOnPage2 = 2
   \<and> alerts (sortTable_soc hostNone ''severity'' socOnPage2) = alerts socOnPage2
   \<and> currentFilters (sortTable_soc hostNone ''severity'' socOnPage2) = currentFilters socOnPage2
   \<and> currentPage_soc (sortTable_soc hostNone ''severity'' socOnPage2) = 1"
  by (simp add: sortTable_soc_def applyFilters_def Let_def socOnPage2_def socInit_def)

subsection \<open>Reversing the sort direction\<close>

lemma array_sort_Nil: "array_sort c [] = []"
  by (simp add: array_sort_def)









lemma js_lt_Str [simp]: "js_lt H (JStr a) (JStr b) = (a < b)"
  by (simp add: js_lt_def)

lemma js_lt_Undef [simp]: "js_lt H JUndefined y = False"
  by (simp add: js_lt_def)

























subsection \<open>Polling\<close>

lemma fimGuard_step: "fimGuard s \<Longrightarrow> fimGuard (fimStep s e)"
  by (cases e) (auto simp: fimGuard_def updateFIMData_begin_def updateFIMData_finally_def)

lemma fimGuard_foldl: "fimGuard s \<Longrightarrow> fimGuard (foldl fimStep s es)"
  by (induction es arbitrary: s) (simp_all add: fimGuard_step)

lemma fimGuard_run: "fimGuard (fimRun es)"
  unfolding fimRun_def by (rule fimGuard_foldl) (simp add: fimGuard_def fimInit_def)

lemma rtmGuard_step: "rtmGuard s \<Longrightarrow> rtmGuard (rtmStep s e)"
  by (cases e) (auto simp: rtmGuard_def fetchUpdates_begin_def fetchUpdates_settle_def Let_def)

lemma rtmGuard_foldl: "rtmGuard s \<Longrightarrow> rtmGuard (foldl rtmStep s es)"
  by (induction es arbitrary: s) (simp_all add: rtmGuard_step)

lemma rtmGuard_run: "rtmGuard (rtmRun es)"
  unfolding rtmRun_def by (rule rtmGuard_foldl) (simp add: rtmGuard_def rtmInit_def)

text \<open>
  C9, as the code has it: in every state the polling loop of \<open>FIMRealTime\<close> and that of
  \<open>RealTimeManager\<close> can reach, at most one load started by the guarded function is in
  flight and the flag is set exactly then; a call made while the flag is set changes
  nothing, so no load is started; and when the load settles, with or without an error,
  the flag is cleared. In \<open>ThreatIntelDashboard\<close> the flag \<open>isRefreshing\<close> guards
  \<open>refreshAllData\<close> in the same way, which the refresh button calls.
\<close>

theorem guarded_polling_single_flight:
  "inFlight (fimRun es) \<le> 1
   \<and> isUpdating (fimRun es) = (inFlight (fimRun es) = 1)
   \<and> (isUpdating (fimRun es) \<longrightarrow> fimStep (fimRun es) TimerFired = fimRun es)
   \<and> (inFlight (fimRun es) = 1 \<longrightarrow>
        \<not> isUpdating (fimStep (fimRun es) (LoadSettled ok))
        \<and> inFlight (fimStep (fimRun es) (LoadSettled ok)) = 0)
   \<and> inFlight_rtm (rtmRun rs) \<le> 1
   \<and> isUpdating_rtm (rtmRun rs) = (inFlight_rtm (rtmRun rs) = 1)
   \<and> (isUpdating_rtm (rtmRun rs) \<longrightarrow> rtmStep (rtmRun rs) FetchUpdatesCalled = rtmRun rs)
   \<and> (inFlight_rtm (rtmRun rs) = 1 \<longrightarrow>
        \<not> isUpdating_rtm (rtmStep (rtmRun rs) (FetchSettled ok))
        \<and> inFlight_rtm (rtmStep (rtmRun rs) (FetchSettled ok)) = 0)
   \<and> (isRefreshing t \<longrightarrow> refreshAllData_begin t = t)
   \<and> \<not> isRefreshing (refreshAllData_finally ok t)"
proof -
  have f: "fimGuard (fimRun es)" by (rule fimGuard_run)
  have r: "rtmGuard (rtmRun rs)" by (rule rtmGuard_run)
  from f have f1: "inFlight (fimRun es) \<le> 1 \<and> isUpdating (fimRun es) = (inFlight (fimRun es) = 1)"
    by (simp add: fimGuard_def)
  from r have r1: "inFlight_rtm (rtmRun rs) \<le> 1 \<and> isUpdating_rtm (rtmRun rs) = (inFlight_rtm (rtmRun rs) = 1)"
    by (simp add: rtmGuard_def)
  have f2: "isUpdating s \<longrightarrow> fimStep s TimerFired = s" for s
    by (simp add: updateFIMData_begin_def)
  have f3: "inFlight s = 1 \<longrightarrow> \<not> isUpdating (fimStep s (LoadSettled ok)) \<and> inFlight (fimStep s (LoadSettled ok)) = 0" for s
    by (simp add: updateFIMData_finally_def)
  have r2: "isUpdating_rtm s \<longrightarrow> rtmStep s FetchUpdatesCalled = s" for s
    by (simp add: fetchUpdates_begin_def)
  have r3: "inFlight_rtm s = 1 \<longrightarrow> \<not> isUpdating_rtm (rtmStep s (FetchSettled ok)) \<and> inFlight_rtm (rtmStep s (FetchSettled ok)) = 0" for s
    by (simp add: fetchUpdates_settle_def Let_def)
  have t1: "isRefreshing t \<longrightarrow> refreshAllData_begin t = t"
    by (simp add: refreshAllData_begin_def)
  have t2: "\<not> isRefreshing (refreshAllData_finally ok t)"
    by (simp add: refreshAllData_finally_def)
  from f1 r1 f2[of "fimRun es"] f3[of "fimRun es"] r2[of "rtmRun rs"] r3[of "rtmRun rs"] t1 t2
  show ?thesis by blast
qed

theorem guarded_polling_single_flight_witness:
  "isUpdating (fimRun [TimerFired]) \<and> inFlight (fimRun [TimerFired]) = 1
   \<and> fimStep (fimRun [TimerFired]) TimerFired = fimRun [TimerFired]
   \<and> \<not> isUpdating (fimStep (fimRun [TimerFired]) (LoadSettled False))
   \<and> isUpdating_rtm (rtmRun [FetchUpdatesCalled])
   \<and> rtmStep (rtmRun [FetchUpdatesCalled]) FetchUpdatesCalled = rtmRun [FetchUpdatesCalled]
   \<and> \<not> isUpdating_rtm (rtmStep (rtmRun [FetchUpdatesCalled]) (FetchSettled False))
   \<and> isRefreshing (refreshAllData_begin tiInit)
   \<and> refreshAllData_begin (refreshAllData_begin tiInit) = refreshAllData_begin tiInit"
proof -
  have a: "isUpdating (fimRun [TimerFired])"
    by (simp add: fimRun_def fimInit_def updateFIMData_begin_def)
  have b: "isUpdating_rtm (rtmRun [FetchUpdatesCalled])"
    by (simp add: rtmRun_def rtmInit_def fetchUpdates_begin_def)
  have c: "isRefreshing (refreshAllData_begin tiInit)"
    by (simp add: refreshAllData_begin_def tiInit_def)
  from guarded_polling_single_flight[of "[TimerFired]" False "[FetchUpdatesCalled]"
         "refreshAllData_begin tiInit"] a b c
  show ?thesis by blast
qed

text \<open>
  C9 as stated fails in \<open>ThreatIntelDashboard\<close>: with auto refresh on for the alerts tab,
  the timer fires while \<open>isRefreshing\<close> is set and one load is in flight, and a second
  load is started.
\<close>

theorem timer_bypasses_guard_counterexample:
  "isRefreshing (refreshAllData_begin (tiInit\<lparr>alertsAutoRefresh := True\<rparr>))
   \<and> pendingLoads (refreshAllData_begin (tiInit\<lparr>alertsAutoRefresh := True\<rparr>)) = 1
   \<and> pendingLoads (autoRefreshTick (refreshAllData_begin (tiInit\<lparr>alertsAutoRefresh := True\<rparr>))) = 2"
  by (simp add: refreshAllData_begin_def tiInit_def autoRefreshTick_def)

end
